theory Spec2Isabelle
  imports Complex_Main "HOL-Library.Sublist"
begin

section \<open>The intercorrelation filter of the feature-analysis notebook\<close>

text \<open>
  The notebook's only routine with an algorithm of its own is
  \<^verbatim>\<open>selectNonIntercorrelated(df_in, ftrs, corr_th)\<close>.  It calls pandas and numpy for the
  table operations; those calls are modelled below on labelled tables, one definition
  per call, and the routine itself is translated statement by statement.

  Conventions of the model:
  \<^item> a float is a \<open>real option\<close>, \<open>None\<close> being NaN, and a double is the real number it
    stands for; comparisons and \<^verbatim>\<open>abs\<close> are exact on doubles, the mean is not: the float64
    mean that pandas returns for a column is a parameter of the model (\<open>float_mean\<close>), of
    which nothing is assumed, so no theorem about an arbitrary table rests on how the mean
    is rounded.  The sample tables take the mean without rounding as their \<open>float_mean\<close>;
    the means they compare are either those of two columns holding the same cells in
    another order, or apart by more than 0.01;
  \<^item> a DataFrame is its row labels, its column labels and the cell at a pair of labels;
    positions are those of the first occurrence of a label, which is what pandas has when
    labels are distinct (a frame with a repeated column label is outside the model);
  \<^item> the input frame \<open>df_in\<close> is seen only through \<^verbatim>\<open>df_in.corr(method='spearman')\<close>, so it is
    given by its numeric column names, the pairwise Spearman coefficient of two columns
    and the float64 mean pandas computes for a column of cells
    (the notebook's \<^verbatim>\<open>np.bool\<close> dates it to the pandas versions whose \<^verbatim>\<open>corr\<close> leaves
    non-numeric columns out without an error; later versions raise instead, which is the
    \<open>Inl\<close> case of \<open>selectNonIntercorrelated_call\<close>);
  \<^item> a subscript that pandas answers with KeyError returns \<open>Inl (KeyError k)\<close>;
  \<^item> the routine is given twice: on values, and on an object store in which \<open>df_in\<close>,
    \<open>ftrs\<close> and the lists the routine builds are objects at addresses, so that what a call
    does to its arguments can be stated.
\<close>

subsection \<open>Tables\<close>

datatype error = KeyError string | AttributeError | TypeError | ValueError string

type_synonym series = "(string \<times> real option) list"

record dataframe =
  index :: "string list"
  columns :: "string list"
  cell :: "string \<Rightarrow> string \<Rightarrow> real option"

record table =
  numeric_columns :: "string list"
  spearman :: "string \<Rightarrow> string \<Rightarrow> real option"
  float_mean :: "real option list \<Rightarrow> real option"

text \<open>Float comparison \<^verbatim>\<open>x > y\<close>: false as soon as one side is NaN.\<close>

fun gt_nan :: "real option \<Rightarrow> real option \<Rightarrow> bool" where
  "gt_nan (Some x) (Some y) = (y < x)"
| "gt_nan _ _ = False"

text \<open>Position of the first occurrence of a label.\<close>

fun position :: "string list \<Rightarrow> string \<Rightarrow> nat" where
  "position [] x = 0"
| "position (y # ys) x = (if x = y then 0 else Suc (position ys x))"

text \<open>\<^verbatim>\<open>df_in.corr(method='spearman')\<close>: square, labelled by the numeric columns on both axes.\<close>

definition corr_spearman :: "table \<Rightarrow> dataframe" where
  "corr_spearman df =
     \<lparr>index = numeric_columns df, columns = numeric_columns df, cell = spearman df\<rparr>"

text \<open>\<^verbatim>\<open>.abs()\<close>: elementwise, NaN stays NaN.\<close>

definition abs_df :: "dataframe \<Rightarrow> dataframe" where
  "abs_df d = d\<lparr>cell := (\<lambda>r c. map_option abs (cell d r c))\<rparr>"

text \<open>
  The mean of the cells that are not NaN, without rounding.  The routine does not use it
  (its means are \<open>float_mean\<close>); the sample tables below take it as their \<open>float_mean\<close>.
\<close>

definition exact_mean :: "real option list \<Rightarrow> real option" where
  "exact_mean vs =
     (let xs = map the (filter (\<lambda>v. v \<noteq> None) vs)
      in if xs = [] then None else Some (sum_list xs / real (length xs)))"

text \<open>
  \<^verbatim>\<open>.mean()\<close>: one value per column, computed in float64 by pandas from the cells of the
  column, top to bottom; \<open>fmean\<close> is that computation.
\<close>

definition mean_df :: "(real option list \<Rightarrow> real option) \<Rightarrow> dataframe \<Rightarrow> series" where
  "mean_df fmean d = map (\<lambda>c. (c, fmean (map (\<lambda>r. cell d r c) (index d)))) (columns d)"

text \<open>\<^verbatim>\<open>np.triu(np.ones(shape), k=1).astype(np.bool)\<close>: true strictly above the diagonal.\<close>

definition triu_ones_k1 :: "nat \<Rightarrow> nat \<Rightarrow> bool" where
  "triu_ones_k1 i j = (i + 1 \<le> j)"

text \<open>\<^verbatim>\<open>d.where(mask)\<close> with a positional mask: cells outside the mask become NaN.\<close>

definition where_mask :: "dataframe \<Rightarrow> (nat \<Rightarrow> nat \<Rightarrow> bool) \<Rightarrow> dataframe" where
  "where_mask d m =
     d\<lparr>cell := (\<lambda>r c. if m (position (index d) r) (position (columns d) c)
                       then cell d r c else None)\<rparr>"

text \<open>\<^verbatim>\<open>d.where(d > th)\<close>: cells not strictly above \<open>th\<close> become NaN.\<close>

definition where_gt :: "dataframe \<Rightarrow> real \<Rightarrow> dataframe" where
  "where_gt d th =
     d\<lparr>cell := (\<lambda>r c. if gt_nan (cell d r c) (Some th) then cell d r c else None)\<rparr>"

text \<open>\<^verbatim>\<open>.dropna(how='all', axis=1)\<close> and \<^verbatim>\<open>.dropna(how='all', axis=0)\<close>.\<close>

definition dropna_all_columns :: "dataframe \<Rightarrow> dataframe" where
  "dropna_all_columns d =
     d\<lparr>columns := filter (\<lambda>c. \<not> list_all (\<lambda>r. cell d r c = None) (index d)) (columns d)\<rparr>"

definition dropna_all_rows :: "dataframe \<Rightarrow> dataframe" where
  "dropna_all_rows d =
     d\<lparr>index := filter (\<lambda>r. \<not> list_all (\<lambda>c. cell d r c = None) (columns d)) (index d)\<rparr>"

text \<open>The subscripts \<^verbatim>\<open>series[label]\<close> and \<^verbatim>\<open>frame[column]\<close>.\<close>

definition getitem_series :: "series \<Rightarrow> string \<Rightarrow> error + real option" where
  "getitem_series s k = (case map_of s k of None \<Rightarrow> Inl (KeyError k) | Some v \<Rightarrow> Inr v)"

definition getitem_column :: "dataframe \<Rightarrow> string \<Rightarrow> error + series" where
  "getitem_column d c =
     (if c \<in> set (columns d) then Inr (map (\<lambda>r. (r, cell d r c)) (index d))
      else Inl (KeyError c))"

text \<open>\<^verbatim>\<open>s.index[pd.notnull(s)]\<close>: the labels of the cells that are not NaN, in order.\<close>

definition notnull_index :: "series \<Rightarrow> string list" where
  "notnull_index s = map fst (filter (\<lambda>kv. snd kv \<noteq> None) s)"

subsection \<open>The routine\<close>

text \<open>\<^verbatim>\<open>if x not in acc: acc.append(x)\<close>\<close>

definition append_if_absent :: "string list \<Rightarrow> string \<Rightarrow> string list" where
  "append_if_absent acc x = (if x \<notin> set acc then acc @ [x] else acc)"

text \<open>
  The inner loop over \<^verbatim>\<open>correlated_with_feature\<close>; \<open>acc\<close> is
  \<^verbatim>\<open>intercorrelated_features_set\<close>.
\<close>

fun inner_loop ::
  "series \<Rightarrow> real option \<Rightarrow> string \<Rightarrow> string list \<Rightarrow> string list \<Rightarrow> error + string list" where
  "inner_loop mean_absolute_corr mean_absolute_main feature [] acc = Inr acc"
| "inner_loop mean_absolute_corr mean_absolute_main feature (each_correlated_feature # rest) acc =
     (case getitem_series mean_absolute_corr each_correlated_feature of
        Inl err \<Rightarrow> Inl err
      | Inr mean_absolute \<Rightarrow>
          inner_loop mean_absolute_corr mean_absolute_main feature rest
            (if gt_nan mean_absolute_main mean_absolute
             then append_if_absent acc feature
             else append_if_absent acc each_correlated_feature))"

text \<open>The outer loop over \<^verbatim>\<open>high_corrs.columns\<close>.\<close>

fun outer_loop ::
  "series \<Rightarrow> dataframe \<Rightarrow> string list \<Rightarrow> string list \<Rightarrow> error + string list" where
  "outer_loop mean_absolute_corr high_corrs [] acc = Inr acc"
| "outer_loop mean_absolute_corr high_corrs (feature # rest) acc =
     (case getitem_series mean_absolute_corr feature of
        Inl err \<Rightarrow> Inl err
      | Inr mean_absolute_main \<Rightarrow>
          (case getitem_column high_corrs feature of
             Inl err \<Rightarrow> Inl err
           | Inr col \<Rightarrow>
               (case inner_loop mean_absolute_corr mean_absolute_main feature
                       (notnull_index col) acc of
                  Inl err \<Rightarrow> Inl err
                | Inr acc' \<Rightarrow> outer_loop mean_absolute_corr high_corrs rest acc')))"

definition corr_matrix_of :: "table \<Rightarrow> dataframe" where
  "corr_matrix_of df_in = abs_df (corr_spearman df_in)"

definition mean_absolute_corr_of :: "table \<Rightarrow> series" where
  "mean_absolute_corr_of df_in = mean_df (float_mean df_in) (corr_matrix_of df_in)"

definition high_corrs_of :: "table \<Rightarrow> real \<Rightarrow> dataframe" where
  "high_corrs_of df_in corr_th =
     (let upper = where_mask (corr_matrix_of df_in) triu_ones_k1
      in dropna_all_rows (dropna_all_columns (where_gt upper corr_th)))"

text \<open>The drop list \<^verbatim>\<open>intercorrelated_features_set\<close> as it stands after the loops.\<close>

definition intercorrelated_features_set :: "table \<Rightarrow> real \<Rightarrow> error + string list" where
  "intercorrelated_features_set df_in corr_th =
     (let mean_absolute_corr = mean_absolute_corr_of df_in;
          high_corrs = high_corrs_of df_in corr_th
      in outer_loop mean_absolute_corr high_corrs (columns high_corrs) [])"

definition selectNonIntercorrelated :: "table \<Rightarrow> string list \<Rightarrow> real \<Rightarrow> error + string list" where
  "selectNonIntercorrelated df_in ftrs corr_th =
     (case intercorrelated_features_set df_in corr_th of
        Inl err \<Rightarrow> Inl err
      | Inr dropped \<Rightarrow> Inr (filter (\<lambda>e. e \<notin> set dropped) ftrs))"

text \<open>
  The call \<^verbatim>\<open>df_in.corr(method='spearman')\<close> can itself raise: later pandas versions reject
  a non-numeric column with a ValueError instead of leaving it out.  The routine has no
  \<^verbatim>\<open>try\<close>, so what \<^verbatim>\<open>corr\<close> raises leaves the routine as it is.  Here the outcome of
  \<^verbatim>\<open>corr\<close> is given: the error it raised, or the table it returned.
\<close>

definition selectNonIntercorrelated_call ::
  "error + table \<Rightarrow> string list \<Rightarrow> real \<Rightarrow> error + string list" where
  "selectNonIntercorrelated_call corr_outcome ftrs corr_th =
     (case corr_outcome of
        Inl err \<Rightarrow> Inl err
      | Inr df_in \<Rightarrow> selectNonIntercorrelated df_in ftrs corr_th)"

subsection \<open>The routine on an object store\<close>

text \<open>
  Python passes \<open>df_in\<close> and \<open>ftrs\<close> by reference and \<^verbatim>\<open>append\<close> updates a list in place.
  Here objects live in a store; \<^verbatim>\<open>intercorrelated_features_set = []\<close> and the list
  comprehension allocate new objects, \<^verbatim>\<open>append\<close> overwrites the object at an address, and
  \<^verbatim>\<open>print\<close> adds to the output.  The pandas calls return new frames and leave their
  receiver alone, so their results are values here, not objects of the store.  Only a
  call with a frame at \<open>df_in\<close> and a list of names at \<open>ftrs\<close> is modelled; for any other
  object at these addresses the definitions answer an error, whatever Python does.
\<close>

datatype pyobj = FrameObj table | ListObj "string list"

record store =
  objs :: "nat \<Rightarrow> pyobj option"
  fresh :: nat
  printed :: "string list list"

definition alloc :: "pyobj \<Rightarrow> store \<Rightarrow> nat \<times> store" where
  "alloc v s = (fresh s, s\<lparr>objs := (objs s)(fresh s \<mapsto> v), fresh := Suc (fresh s)\<rparr>)"

text \<open>\<^verbatim>\<open>x in r\<close> and \<^verbatim>\<open>r.append(x)\<close> for a list object at address \<open>r\<close>.\<close>

definition list_contains :: "nat \<Rightarrow> string \<Rightarrow> store \<Rightarrow> error + bool" where
  "list_contains r x s =
     (case objs s r of Some (ListObj xs) \<Rightarrow> Inr (x \<in> set xs) | _ \<Rightarrow> Inl TypeError)"

definition list_append :: "nat \<Rightarrow> string \<Rightarrow> store \<Rightarrow> error + store" where
  "list_append r x s =
     (case objs s r of
        Some (ListObj xs) \<Rightarrow> Inr (s\<lparr>objs := (objs s)(r \<mapsto> ListObj (xs @ [x]))\<rparr>)
      | _ \<Rightarrow> Inl AttributeError)"

text \<open>\<^verbatim>\<open>if x not in r: r.append(x)\<close>\<close>

definition append_if_absent_st :: "nat \<Rightarrow> string \<Rightarrow> store \<Rightarrow> error + store" where
  "append_if_absent_st r x s =
     (case list_contains r x s of
        Inl err \<Rightarrow> Inl err
      | Inr present \<Rightarrow> if present then Inr s else list_append r x s)"

fun inner_loop_st ::
  "series \<Rightarrow> real option \<Rightarrow> string \<Rightarrow> string list \<Rightarrow> nat \<Rightarrow> store \<Rightarrow> error + store" where
  "inner_loop_st mean_absolute_corr mean_absolute_main feature [] r s = Inr s"
| "inner_loop_st mean_absolute_corr mean_absolute_main feature (each_correlated_feature # rest) r s =
     (case getitem_series mean_absolute_corr each_correlated_feature of
        Inl err \<Rightarrow> Inl err
      | Inr mean_absolute \<Rightarrow>
          (case (if gt_nan mean_absolute_main mean_absolute
                 then append_if_absent_st r feature s
                 else append_if_absent_st r each_correlated_feature s) of
             Inl err \<Rightarrow> Inl err
           | Inr s' \<Rightarrow> inner_loop_st mean_absolute_corr mean_absolute_main feature rest r s'))"

fun outer_loop_st ::
  "series \<Rightarrow> dataframe \<Rightarrow> string list \<Rightarrow> nat \<Rightarrow> store \<Rightarrow> error + store" where
  "outer_loop_st mean_absolute_corr high_corrs [] r s = Inr s"
| "outer_loop_st mean_absolute_corr high_corrs (feature # rest) r s =
     (case getitem_series mean_absolute_corr feature of
        Inl err \<Rightarrow> Inl err
      | Inr mean_absolute_main \<Rightarrow>
          (case getitem_column high_corrs feature of
             Inl err \<Rightarrow> Inl err
           | Inr col \<Rightarrow>
               (case inner_loop_st mean_absolute_corr mean_absolute_main feature
                       (notnull_index col) r s of
                  Inl err \<Rightarrow> Inl err
                | Inr s' \<Rightarrow> outer_loop_st mean_absolute_corr high_corrs rest r s')))"

text \<open>
  The whole call: \<open>df_in\<close> and \<open>ftrs\<close> are addresses; the result is the address of the
  returned list and the store after the call.
\<close>

definition selectNonIntercorrelated_st ::
  "nat \<Rightarrow> nat \<Rightarrow> real \<Rightarrow> store \<Rightarrow> error + (nat \<times> store)" where
  "selectNonIntercorrelated_st df_in ftrs corr_th s =
     (case objs s df_in of
        Some (FrameObj df) \<Rightarrow>
          (let mean_absolute_corr = mean_absolute_corr_of df;
               (intercorrelated, s1) = alloc (ListObj []) s;
               high_corrs = high_corrs_of df corr_th
           in case outer_loop_st mean_absolute_corr high_corrs (columns high_corrs)
                     intercorrelated s1 of
                Inl err \<Rightarrow> Inl err
              | Inr s2 \<Rightarrow>
                  (case (objs s2 ftrs, objs s2 intercorrelated) of
                     (Some (ListObj fs), Some (ListObj dropped)) \<Rightarrow>
                       (let non_intercorrelated = filter (\<lambda>e. e \<notin> set dropped) fs;
                            (res, s3) = alloc (ListObj non_intercorrelated) s2
                        in Inr (res, s3\<lparr>printed := printed s3 @ [non_intercorrelated]\<rparr>))
                   | _ \<Rightarrow> Inl TypeError))
      | _ \<Rightarrow> Inl AttributeError)"

subsection \<open>Notions used to state the properties\<close>

text \<open>
  The value the routine reads as \<^verbatim>\<open>mean_absolute_corr[f]\<close>: the mean over the rows of the
  absolute correlation matrix of column \<open>f\<close>.
\<close>

definition centrality :: "table \<Rightarrow> string \<Rightarrow> real option" where
  "centrality df_in f =
     float_mean df_in (map (\<lambda>r. map_option abs (spearman df_in r f)) (numeric_columns df_in))"

text \<open>
  A pair the loops visit: row \<open>a\<close> strictly before column \<open>b\<close>, with an absolute correlation
  strictly above the threshold.
\<close>

definition high_pair :: "table \<Rightarrow> real \<Rightarrow> string \<Rightarrow> string \<Rightarrow> bool" where
  "high_pair df_in corr_th a b =
     (a \<in> set (numeric_columns df_in) \<and> b \<in> set (numeric_columns df_in) \<and>
      position (numeric_columns df_in) a < position (numeric_columns df_in) b \<and>
      gt_nan (map_option abs (spearman df_in a b)) (Some corr_th))"

text \<open>The name the branch of the inner loop appends for column \<open>feature\<close> and row \<open>e\<close>.\<close>

definition loser :: "table \<Rightarrow> string \<Rightarrow> string \<Rightarrow> string" where
  "loser df_in feature e =
     (if gt_nan (centrality df_in feature) (centrality df_in e) then feature else e)"

text \<open>Float comparison \<^verbatim>\<open>x < y\<close>, used to say that a correlation is below the threshold.\<close>

fun lt_nan :: "real option \<Rightarrow> real option \<Rightarrow> bool" where
  "lt_nan (Some x) (Some y) = (x < y)"
| "lt_nan _ _ = False"

definition upper_high :: "table \<Rightarrow> real \<Rightarrow> dataframe" where
  "upper_high df th = where_gt (where_mask (corr_matrix_of df) triu_ones_k1) th"

text \<open>The store with the list object at \<open>r\<close> set to \<open>xs\<close>.\<close>

definition put_list :: "nat \<Rightarrow> string list \<Rightarrow> store \<Rightarrow> store" where
  "put_list r xs s = s\<lparr>objs := (objs s)(r \<mapsto> ListObj xs)\<rparr>"

subsection \<open>Sample tables\<close>

text \<open>
  Three features; A and B are strongly (negatively) correlated, and B is the more central
  of the two.
\<close>

definition demo3 :: table where
  "demo3 =
     \<lparr>numeric_columns = [''A'', ''B'', ''C''],
      spearman = (\<lambda>r c. map_of
        [((''A'', ''A''), 1), ((''A'', ''B''), - 19 / 20), ((''A'', ''C''), 1 / 10),
         ((''B'', ''A''), - 19 / 20), ((''B'', ''B''), 1), ((''B'', ''C''), 1 / 2),
         ((''C'', ''A''), 1 / 10), ((''C'', ''B''), 1 / 2), ((''C'', ''C''), 1)] (r, c)),
      float_mean = exact_mean\<rparr>"

text \<open>Three features; A and B are strongly correlated and equally central.\<close>

definition tie3 :: table where
  "tie3 =
     \<lparr>numeric_columns = [''A'', ''B'', ''C''],
      spearman = (\<lambda>r c. map_of
        [((''A'', ''A''), 1), ((''A'', ''B''), 19 / 20), ((''A'', ''C''), 1 / 10),
         ((''B'', ''A''), 19 / 20), ((''B'', ''B''), 1), ((''B'', ''C''), 1 / 10),
         ((''C'', ''A''), 1 / 10), ((''C'', ''B''), 1 / 10), ((''C'', ''C''), 1)] (r, c)),
      float_mean = exact_mean\<rparr>"

text \<open>Two strongly correlated features.\<close>

definition two_features :: table where
  "two_features =
     \<lparr>numeric_columns = [''A'', ''B''],
      spearman = (\<lambda>r c. map_of
        [((''A'', ''A''), 1), ((''A'', ''B''), 19 / 20),
         ((''B'', ''A''), 19 / 20), ((''B'', ''B''), 1)] (r, c)),
      float_mean = exact_mean\<rparr>"

text \<open>
  Four features; A and B are correlated at 0.9, and each of them is correlated at 0.95
  with D, the most central feature.
\<close>

definition at_th :: table where
  "at_th =
     \<lparr>numeric_columns = [''A'', ''B'', ''C'', ''D''],
      spearman = (\<lambda>r c. map_of
        [((''A'', ''A''), 1), ((''A'', ''B''), 9 / 10), ((''A'', ''C''), 1 / 10),
         ((''A'', ''D''), 19 / 20),
         ((''B'', ''A''), 9 / 10), ((''B'', ''B''), 1), ((''B'', ''C''), 1 / 10),
         ((''B'', ''D''), 19 / 20),
         ((''C'', ''A''), 1 / 10), ((''C'', ''B''), 1 / 10), ((''C'', ''C''), 1),
         ((''C'', ''D''), 1 / 10),
         ((''D'', ''A''), 19 / 20), ((''D'', ''B''), 19 / 20), ((''D'', ''C''), 1 / 10),
         ((''D'', ''D''), 1)] (r, c)),
      float_mean = exact_mean\<rparr>"

text \<open>Two features whose coefficients are all NaN, as for a frame with a single row.\<close>

definition all_nan2 :: table where
  "all_nan2 =
     \<lparr>numeric_columns = [''A'', ''B''], spearman = (\<lambda>r c. None), float_mean = exact_mean\<rparr>"

text \<open>A store holding the table \<open>demo3\<close> at address 0 and a list of names at address 1.\<close>

definition sample_store :: store where
  "sample_store =
     \<lparr>objs = [0 \<mapsto> FrameObj demo3, 1 \<mapsto> ListObj [''A'', ''B'', ''C'']],
      fresh = 2, printed = []\<rparr>"

section \<open>What the loops compute\<close>

lemmas model_defs = intercorrelated_features_set_def selectNonIntercorrelated_def
  high_corrs_of_def corr_matrix_of_def corr_spearman_def abs_df_def mean_df_def mean_absolute_corr_of_def exact_mean_def
  where_mask_def where_gt_def dropna_all_columns_def dropna_all_rows_def triu_ones_k1_def
  getitem_series_def getitem_column_def notnull_index_def append_if_absent_def

lemma map_of_const_key:
  "k \<in> set ks \<Longrightarrow> map_of (map (\<lambda>c. (c, g c)) ks) k = Some (g k)"
  by (induction ks) auto

lemma getitem_mean:
  "f \<in> set (numeric_columns df) \<Longrightarrow>
   getitem_series (mean_absolute_corr_of df) f = Inr (centrality df f)"
  by (simp add: getitem_series_def mean_absolute_corr_of_def mean_df_def corr_matrix_of_def
      abs_df_def corr_spearman_def centrality_def map_of_const_key comp_def)

lemma set_append_if_absent: "set (append_if_absent acc x) = insert x (set acc)"
  by (auto simp: append_if_absent_def)

lemma inner_loop_set:
  "set es \<subseteq> set (numeric_columns df) \<Longrightarrow>
   \<exists>acc'. inner_loop (mean_absolute_corr_of df) (centrality df f) f es acc = Inr acc' \<and>
          set acc' = set acc \<union> (\<lambda>e. loser df f e) ` set es"
proof (induction es arbitrary: acc)
  case Nil
  then show ?case by simp
next
  case (Cons e es)
  then have e: "e \<in> set (numeric_columns df)" and es: "set es \<subseteq> set (numeric_columns df)"
    by auto
  let ?acc = "if gt_nan (centrality df f) (centrality df e)
              then append_if_absent acc f else append_if_absent acc e"
  from Cons.IH [OF es, of ?acc] obtain acc' where
    a: "inner_loop (mean_absolute_corr_of df) (centrality df f) f es ?acc = Inr acc'"
    and b: "set acc' = set ?acc \<union> (\<lambda>e. loser df f e) ` set es" by blast
  have "set ?acc = insert (loser df f e) (set acc)"
    by (simp add: loser_def set_append_if_absent)
  with a b show ?case
    by (simp add: getitem_mean [OF e])
qed

lemma cell_high_corrs:
  "cell (high_corrs_of df th) a b =
     (if position (numeric_columns df) a < position (numeric_columns df) b \<and>
         gt_nan (map_option abs (spearman df a b)) (Some th)
      then map_option abs (spearman df a b) else None)"
  by (simp add: high_corrs_of_def dropna_all_rows_def dropna_all_columns_def where_gt_def
      where_mask_def corr_matrix_of_def abs_df_def corr_spearman_def triu_ones_k1_def)

lemma gt_nan_None [simp]: "gt_nan None y = False"
  by simp

lemma gt_nan_SomeD: "gt_nan x y \<Longrightarrow> x \<noteq> None"
  by (cases x) auto

lemma cell_high_corrs_notnull:
  "cell (high_corrs_of df th) a b \<noteq> None \<longleftrightarrow>
     position (numeric_columns df) a < position (numeric_columns df) b \<and>
     gt_nan (map_option abs (spearman df a b)) (Some th)"
  by (auto simp: cell_high_corrs dest: gt_nan_SomeD)

lemma upper_high_simps:
  "index (upper_high df th) = numeric_columns df"
  "columns (upper_high df th) = numeric_columns df"
  "cell (upper_high df th) a b \<noteq> None \<longleftrightarrow>
     position (numeric_columns df) a < position (numeric_columns df) b \<and>
     gt_nan (map_option abs (spearman df a b)) (Some th)"
  by (auto simp: upper_high_def where_gt_def where_mask_def corr_matrix_of_def abs_df_def
      corr_spearman_def triu_ones_k1_def dest: gt_nan_SomeD)

lemma upper_high_Some:
  "(\<exists>y. cell (upper_high df th) a b = Some y) \<longleftrightarrow>
     position (numeric_columns df) a < position (numeric_columns df) b \<and>
     gt_nan (map_option abs (spearman df a b)) (Some th)"
  using upper_high_simps(3) [of df th a b] by auto

lemma high_corrs_of_upper_high:
  "high_corrs_of df th = dropna_all_rows (dropna_all_columns (upper_high df th))"
  by (simp add: high_corrs_of_def upper_high_def)

lemma columns_high_corrs:
  "set (columns (high_corrs_of df th)) = {b. \<exists>a. high_pair df th a b}"
  unfolding high_corrs_of_upper_high
  by (auto simp: dropna_all_rows_def dropna_all_columns_def list_all_iff high_pair_def
      upper_high_simps(1,2) upper_high_Some)

lemma index_high_corrs:
  "set (index (high_corrs_of df th)) = {a. \<exists>b. high_pair df th a b}"
  unfolding high_corrs_of_upper_high
  by (auto simp: dropna_all_rows_def dropna_all_columns_def list_all_iff high_pair_def
      upper_high_simps(1,2) upper_high_Some)

lemma cell_high_corrs_Some:
  "(\<exists>y. cell (high_corrs_of df th) a b = Some y) \<longleftrightarrow>
     position (numeric_columns df) a < position (numeric_columns df) b \<and>
     gt_nan (map_option abs (spearman df a b)) (Some th)"
  using cell_high_corrs_notnull [of df th a b] by auto

lemma notnull_index_column:
  assumes "b \<in> set (columns (high_corrs_of df th))"
  shows "\<exists>col. getitem_column (high_corrs_of df th) b = Inr col \<and>
         set (notnull_index col) = {a. high_pair df th a b}"
proof -
  let ?col = "map (\<lambda>r. (r, cell (high_corrs_of df th) r b)) (index (high_corrs_of df th))"
  have g: "getitem_column (high_corrs_of df th) b = Inr ?col"
    using assms by (simp add: getitem_column_def)
  from assms have bc: "b \<in> set (numeric_columns df)"
    by (auto simp: columns_high_corrs high_pair_def)
  have "set (notnull_index ?col) =
        {a \<in> set (index (high_corrs_of df th)). \<exists>y. cell (high_corrs_of df th) a b = Some y}"
    by (auto simp: notnull_index_def image_iff)
  also have "\<dots> = {a. high_pair df th a b}"
    using bc by (auto simp: index_high_corrs cell_high_corrs_Some high_pair_def)
  finally show ?thesis using g by blast
qed

lemma outer_loop_set:
  "set fs \<subseteq> set (columns (high_corrs_of df th)) \<Longrightarrow>
   \<exists>acc'. outer_loop (mean_absolute_corr_of df) (high_corrs_of df th) fs acc = Inr acc' \<and>
          set acc' = set acc \<union> {loser df b a | a b. b \<in> set fs \<and> high_pair df th a b}"
proof (induction fs arbitrary: acc)
  case Nil
  then show ?case by simp
next
  case (Cons f fs)
  then have f: "f \<in> set (columns (high_corrs_of df th))"
    and fs: "set fs \<subseteq> set (columns (high_corrs_of df th))" by auto
  from f have fc: "f \<in> set (numeric_columns df)"
    by (auto simp: columns_high_corrs high_pair_def)
  from notnull_index_column [OF f] obtain col where
    col: "getitem_column (high_corrs_of df th) f = Inr col"
    and rows: "set (notnull_index col) = {a. high_pair df th a f}" by blast
  from rows have sub: "set (notnull_index col) \<subseteq> set (numeric_columns df)"
    by (auto simp: high_pair_def)
  from inner_loop_set [OF sub, of f acc] obtain acc1 where
    i1: "inner_loop (mean_absolute_corr_of df) (centrality df f) f (notnull_index col) acc
           = Inr acc1"
    and i2: "set acc1 = set acc \<union> loser df f ` {a. high_pair df th a f}"
    using rows by auto
  from Cons.IH [OF fs, of acc1] obtain acc' where
    o1: "outer_loop (mean_absolute_corr_of df) (high_corrs_of df th) fs acc1 = Inr acc'"
    and o2: "set acc' = set acc1 \<union> {loser df b a | a b. b \<in> set fs \<and> high_pair df th a b}"
    by blast
  have "outer_loop (mean_absolute_corr_of df) (high_corrs_of df th) (f # fs) acc = Inr acc'"
    by (simp add: getitem_mean [OF fc] col i1 o1)
  moreover have "set acc' = set acc \<union> {loser df b a | a b. b \<in> set (f # fs) \<and> high_pair df th a b}"
    unfolding o2 i2 by auto
  ultimately show ?case by blast
qed

lemma intercorrelated_features_set_char:
  "\<exists>dropped. intercorrelated_features_set df th = Inr dropped \<and>
      set dropped = {loser df b a | a b. high_pair df th a b}"
proof -
  from outer_loop_set [OF subset_refl, of df th "[]"] obtain acc' where
    a: "outer_loop (mean_absolute_corr_of df) (high_corrs_of df th)
          (columns (high_corrs_of df th)) [] = Inr acc'"
    and b: "set acc' = set [] \<union> {loser df b a | a b.
          b \<in> set (columns (high_corrs_of df th)) \<and> high_pair df th a b}" by blast
  have "set acc' = {loser df b a | a b. high_pair df th a b}"
    unfolding b by (auto simp: columns_high_corrs)
  with a show ?thesis
    by (simp add: intercorrelated_features_set_def Let_def)
qed


lemma select_char:
  "\<exists>dropped. intercorrelated_features_set df th = Inr dropped \<and>
      set dropped = {loser df b a | a b. high_pair df th a b} \<and>
      selectNonIntercorrelated df ftrs th = Inr (filter (\<lambda>e. e \<notin> set dropped) ftrs)"
  using intercorrelated_features_set_char [of df th]
  by (auto simp: selectNonIntercorrelated_def)

lemma loser_cases: "loser df b a = a \<or> loser df b a = b"
  by (simp add: loser_def)

lemma position_less_neq: "position xs a < position xs b \<Longrightarrow> a \<noteq> b"
  by auto

lemma position_inj: "a \<in> set xs \<Longrightarrow> b \<in> set xs \<Longrightarrow> position xs a = position xs b \<Longrightarrow> a = b"
  by (induction xs) (auto split: if_splits)

lemma cell_corr_matrix [simp]:
  "cell (corr_matrix_of df) a b = map_option abs (spearman df a b)"
  by (simp add: corr_matrix_of_def abs_df_def corr_spearman_def)

lemma lt_nan_not_gt: "lt_nan x y \<Longrightarrow> \<not> gt_nan x y"
  by (cases x; cases y) auto

lemma no_high_pair_identity:
  assumes "\<And>a b. \<not> high_pair df th a b"
  shows "intercorrelated_features_set df th = Inr [] \<and>
         selectNonIntercorrelated df ftrs th = Inr ftrs"
proof -
  from select_char [of df th ftrs] obtain dropped where
    d1: "intercorrelated_features_set df th = Inr dropped"
    and d2: "set dropped = {loser df b a | a b. high_pair df th a b}"
    and d3: "selectNonIntercorrelated df ftrs th = Inr (filter (\<lambda>e. e \<notin> set dropped) ftrs)"
    by blast
  from d2 assms have "dropped = []" by simp
  with d1 d3 show ?thesis by simp
qed

lemma dropped_is_pair_member:
  assumes "intercorrelated_features_set df th = Inr dropped" "x \<in> set dropped"
  shows "\<exists>y. high_pair df th x y \<or> high_pair df th y x"
proof -
  from intercorrelated_features_set_char [of df th] assms
  obtain a b where "high_pair df th a b" "x = loser df b a" by auto
  then show ?thesis using loser_cases [of df b a] by auto
qed

lemma high_pair_member_dropped:
  assumes "intercorrelated_features_set df th = Inr dropped" "high_pair df th a b"
  shows "a \<in> set dropped \<or> b \<in> set dropped"
proof -
  from intercorrelated_features_set_char [of df th] assms
  have "loser df b a \<in> set dropped" by auto
  then show ?thesis using loser_cases [of df b a] by auto
qed

subsection \<open>The loops on the store follow the loops on values\<close>

lemma put_list_same: "objs s r = Some (ListObj xs) \<Longrightarrow> put_list r xs s = s"
  by (simp add: put_list_def fun_upd_idem)

lemma put_list_put_list [simp]: "put_list r ys (put_list r xs s) = put_list r ys s"
  by (simp add: put_list_def)

lemma objs_put_list [simp]: "objs (put_list r xs s) = (objs s)(r \<mapsto> ListObj xs)"
  by (simp add: put_list_def)

lemma append_if_absent_st_put:
  "append_if_absent_st r x (put_list r acc s) = Inr (put_list r (append_if_absent acc x) s)"
  by (simp add: append_if_absent_st_def list_contains_def list_append_def append_if_absent_def
      put_list_def)

lemma inner_loop_st_put:
  "inner_loop_st mac mam f es r (put_list r acc s) =
     (case inner_loop mac mam f es acc of Inl err \<Rightarrow> Inl err
      | Inr acc' \<Rightarrow> Inr (put_list r acc' s))"
proof (induction es arbitrary: acc)
  case Nil
  then show ?case by simp
next
  case (Cons e es)
  show ?case
    by (simp add: append_if_absent_st_put Cons.IH split: sum.splits)
qed

lemma outer_loop_st_put:
  "outer_loop_st mac hc fs r (put_list r acc s) =
     (case outer_loop mac hc fs acc of Inl err \<Rightarrow> Inl err
      | Inr acc' \<Rightarrow> Inr (put_list r acc' s))"
proof (induction fs arbitrary: acc)
  case Nil
  then show ?case by simp
next
  case (Cons f fs)
  show ?case
    by (simp add: inner_loop_st_put Cons.IH split: sum.splits)
qed

lemma alloc_list: "alloc (ListObj xs) s = (fresh s, put_list (fresh s) xs (s\<lparr>fresh := Suc (fresh s)\<rparr>))"
  by (simp add: alloc_def put_list_def)

section \<open>The claims\<close>

text \<open>
  C1. In a table with distinct column labels, whenever two distinct columns have an
  absolute Spearman correlation strictly above the threshold, the one whose centrality
  score is strictly higher is put on the drop list, and is therefore absent from the
  result.  The centrality score of a column is what the routine reads for it in
  \<^verbatim>\<open>corr_matrix.mean()\<close>: the float64 mean, as pandas computes it, of the absolute
  correlations of the column with all columns, itself included.  Two columns whose
  float64 means are equal have no strictly higher one, whatever their exact means.
\<close>

theorem higher_centrality_is_dropped:
  assumes dist: "distinct (numeric_columns df)"
    and cols: "a \<in> set (numeric_columns df)" "b \<in> set (numeric_columns df)" "a \<noteq> b"
    and sym: "spearman df a b = spearman df b a"
    and high: "gt_nan (cell (corr_matrix_of df) a b) (Some th)"
    and ca: "getitem_series (mean_absolute_corr_of df) a = Inr ca"
    and cb: "getitem_series (mean_absolute_corr_of df) b = Inr cb"
    and higher: "gt_nan ca cb"
  shows "\<exists>dropped out. intercorrelated_features_set df th = Inr dropped \<and>
           selectNonIntercorrelated df ftrs th = Inr out \<and>
           a \<in> set dropped \<and> a \<notin> set out"
proof -
  from select_char [of df th ftrs] obtain dropped where
    d1: "intercorrelated_features_set df th = Inr dropped"
    and d2: "set dropped = {loser df b a | a b. high_pair df th a b}"
    and d3: "selectNonIntercorrelated df ftrs th = Inr (filter (\<lambda>e. e \<notin> set dropped) ftrs)"
    by blast
  have ca': "ca = centrality df a" using ca getitem_mean [OF cols(1)] by simp
  have cb': "cb = centrality df b" using cb getitem_mean [OF cols(2)] by simp
  have nb: "\<not> gt_nan (centrality df b) (centrality df a)"
    using higher unfolding ca' cb'
    by (cases "centrality df a"; cases "centrality df b") auto
  have "position (numeric_columns df) a \<noteq> position (numeric_columns df) b"
    using position_inj cols by blast
  then consider (ab) "position (numeric_columns df) a < position (numeric_columns df) b"
    | (ba) "position (numeric_columns df) b < position (numeric_columns df) a"
    by linarith
  then have "a \<in> set dropped"
  proof cases
    case ab
    then have "high_pair df th a b" using cols high by (simp add: high_pair_def)
    moreover have "loser df b a = a" using nb by (simp add: loser_def)
    ultimately show ?thesis unfolding d2 by force
  next
    case ba
    then have "high_pair df th b a" using cols high sym by (simp add: high_pair_def)
    moreover have "loser df a b = a" using higher ca' cb' by (simp add: loser_def)
    ultimately show ?thesis unfolding d2 by force
  qed
  with d1 d3 show ?thesis by simp
qed

theorem higher_centrality_is_dropped_witness:
  "distinct (numeric_columns demo3) \<and>
   ''B'' \<in> set (numeric_columns demo3) \<and> ''A'' \<in> set (numeric_columns demo3) \<and>
   spearman demo3 ''B'' ''A'' = spearman demo3 ''A'' ''B'' \<and>
   gt_nan (cell (corr_matrix_of demo3) ''B'' ''A'') (Some (9 / 10)) \<and>
   getitem_series (mean_absolute_corr_of demo3) ''B'' = Inr (Some (49 / 60)) \<and>
   getitem_series (mean_absolute_corr_of demo3) ''A'' = Inr (Some (41 / 60)) \<and>
   (\<exists>dropped out. intercorrelated_features_set demo3 (9 / 10) = Inr dropped \<and>
      selectNonIntercorrelated demo3 [''A'', ''B'', ''C''] (9 / 10) = Inr out \<and>
      ''B'' \<in> set dropped \<and> ''B'' \<notin> set out)"
proof -
  have h0: "distinct (numeric_columns demo3)" by (simp add: demo3_def)
  have h1: "''B'' \<in> set (numeric_columns demo3)" by (simp add: demo3_def)
  have h2: "''A'' \<in> set (numeric_columns demo3)" by (simp add: demo3_def)
  have h3: "''B'' \<noteq> ''A''" by simp
  have h4: "spearman demo3 ''B'' ''A'' = spearman demo3 ''A'' ''B''" by (simp add: demo3_def)
  have h5: "gt_nan (cell (corr_matrix_of demo3) ''B'' ''A'') (Some (9 / 10))"
    by (simp add: demo3_def)
  have h6: "getitem_series (mean_absolute_corr_of demo3) ''B'' = Inr (Some (49 / 60))"
    by (simp add: model_defs demo3_def del: not_None_eq)
  have h7: "getitem_series (mean_absolute_corr_of demo3) ''A'' = Inr (Some (41 / 60))"
    by (simp add: model_defs demo3_def del: not_None_eq)
  have h8: "gt_nan (Some (49 / 60)) (Some (41 / 60))" by simp
  from higher_centrality_is_dropped [OF h0 h1 h2 h3 h4 h5 h6 h7 h8, of "[''A'', ''B'', ''C'']"]
  show ?thesis using h0 h1 h2 h4 h5 h6 h7 by blast
qed

text \<open>
  C2. Filtering again is the identity: take any table whose numeric columns are among the
  retained names and the columns of the first table, with the same pairwise coefficients
  (the first table restricted to the retained features, in any column order); the routine
  applied to it, to the retained list and to the same threshold returns the retained list.
  The coefficients are symmetric, as those of pandas are.
\<close>

theorem refiltering_is_idempotent:
  assumes out: "selectNonIntercorrelated df ftrs th = Inr out"
    and cols: "set (numeric_columns df') \<subseteq> set out \<inter> set (numeric_columns df)"
    and same: "spearman df' = spearman df"
    and sym: "\<forall>a\<in>set (numeric_columns df). \<forall>b\<in>set (numeric_columns df).
                spearman df a b = spearman df b a"
  shows "selectNonIntercorrelated df' out th = Inr out"
proof -
  from select_char [of df th ftrs] out obtain dropped where
    d1: "intercorrelated_features_set df th = Inr dropped"
    and d3: "out = filter (\<lambda>e. e \<notin> set dropped) ftrs"
    by auto
  have "\<not> high_pair df' th a b" for a b
  proof
    assume hp: "high_pair df' th a b"
    then have a: "a \<in> set (numeric_columns df)" and b: "b \<in> set (numeric_columns df)"
      and ao: "a \<in> set out" and bo: "b \<in> set out" and ne: "a \<noteq> b"
      and gt: "gt_nan (map_option abs (spearman df a b)) (Some th)"
      using cols same by (auto simp: high_pair_def)
    from sym a b have gt': "gt_nan (map_option abs (spearman df b a)) (Some th)"
      using gt by simp
    have "position (numeric_columns df) a \<noteq> position (numeric_columns df) b"
      using position_inj a b ne by blast
    then have "high_pair df th a b \<or> high_pair df th b a"
      using a b gt gt' by (auto simp: high_pair_def)
    then have "a \<in> set dropped \<or> b \<in> set dropped"
      using high_pair_member_dropped [OF d1] by blast
    with ao bo show False unfolding d3 by auto
  qed
  then show ?thesis using no_high_pair_identity by blast
qed

theorem refiltering_is_idempotent_witness:
  "selectNonIntercorrelated demo3 [''A'', ''B'', ''C''] (9 / 10) = Inr [''A'', ''C''] \<and>
   selectNonIntercorrelated (demo3\<lparr>numeric_columns := [''C'', ''A'']\<rparr>) [''A'', ''C''] (9 / 10)
     = Inr [''A'', ''C'']"
proof -
  have h1: "selectNonIntercorrelated demo3 [''A'', ''B'', ''C''] (9 / 10) = Inr [''A'', ''C'']"
    by (simp add: model_defs demo3_def del: not_None_eq)
  have h2: "set (numeric_columns (demo3\<lparr>numeric_columns := [''C'', ''A'']\<rparr>))
              \<subseteq> set [''A'', ''C''] \<inter> set (numeric_columns demo3)"
    by (simp add: demo3_def)
  have h3: "spearman (demo3\<lparr>numeric_columns := [''C'', ''A'']\<rparr>) = spearman demo3"
    by simp
  have h4: "\<forall>a\<in>set (numeric_columns demo3). \<forall>b\<in>set (numeric_columns demo3).
              spearman demo3 a b = spearman demo3 b a"
    by (simp add: demo3_def)
  from refiltering_is_idempotent [OF h1 h2 h3 h4] h1 show ?thesis by blast
qed

text \<open>
  C3. If every two distinct columns have an absolute Spearman correlation below the
  threshold, the result is the list \<open>ftrs\<close> itself.
\<close>

theorem all_below_threshold_identity:
  assumes "\<forall>a\<in>set (numeric_columns df). \<forall>b\<in>set (numeric_columns df). a \<noteq> b \<longrightarrow>
             lt_nan (cell (corr_matrix_of df) a b) (Some th)"
  shows "selectNonIntercorrelated df ftrs th = Inr ftrs"
proof -
  have "\<not> high_pair df th a b" for a b
  proof
    assume hp: "high_pair df th a b"
    then have "a \<in> set (numeric_columns df)" "b \<in> set (numeric_columns df)" "a \<noteq> b"
      by (auto simp: high_pair_def)
    with assms have "lt_nan (map_option abs (spearman df a b)) (Some th)"
      by fastforce
    from lt_nan_not_gt [OF this] hp show False by (simp add: high_pair_def)
  qed
  then show ?thesis using no_high_pair_identity by blast
qed

theorem all_below_threshold_identity_witness:
  "lt_nan (cell (corr_matrix_of demo3) ''A'' ''B'') (Some (99 / 100)) \<and>
   lt_nan (cell (corr_matrix_of demo3) ''A'' ''C'') (Some (99 / 100)) \<and>
   lt_nan (cell (corr_matrix_of demo3) ''B'' ''C'') (Some (99 / 100)) \<and>
   selectNonIntercorrelated demo3 [''C'', ''A'', ''B''] (99 / 100) = Inr [''C'', ''A'', ''B'']"
proof -
  have h: "\<forall>a\<in>set (numeric_columns demo3). \<forall>b\<in>set (numeric_columns demo3). a \<noteq> b \<longrightarrow>
      lt_nan (cell (corr_matrix_of demo3) a b) (Some (99 / 100))"
    by (simp add: demo3_def)
  have "lt_nan (cell (corr_matrix_of demo3) ''A'' ''B'') (Some (99 / 100))"
    "lt_nan (cell (corr_matrix_of demo3) ''A'' ''C'') (Some (99 / 100))"
    "lt_nan (cell (corr_matrix_of demo3) ''B'' ''C'') (Some (99 / 100))"
    by (simp_all add: demo3_def)
  with all_below_threshold_identity [OF h] show ?thesis by blast
qed

text \<open>
  C4. The result is a sub-list of \<open>ftrs\<close> in the order of \<open>ftrs\<close>, and it has no
  duplicates when \<open>ftrs\<close> has none.
\<close>

theorem output_is_ordered_sublist:
  "\<exists>out. selectNonIntercorrelated df ftrs th = Inr out \<and> subseq out ftrs \<and>
         (distinct ftrs \<longrightarrow> distinct out)"
  using select_char [of df th ftrs] by auto

theorem output_is_ordered_sublist_witness:
  "distinct [''C'', ''B'', ''A''] \<and>
   selectNonIntercorrelated demo3 [''C'', ''B'', ''A''] (9 / 10) = Inr [''C'', ''A''] \<and>
   subseq [''C'', ''A''] [''C'', ''B'', ''A''] \<and> distinct [''C'', ''A'']"
proof -
  have e: "selectNonIntercorrelated demo3 [''C'', ''B'', ''A''] (9 / 10) = Inr [''C'', ''A'']"
    by (simp add: model_defs demo3_def del: not_None_eq)
  from output_is_ordered_sublist [of demo3 "[''C'', ''B'', ''A'']" "9 / 10"] e
  show ?thesis by auto
qed

text \<open>
  C5. For every table with distinct column labels and every pair \<open>a\<close>, \<open>b\<close> whose absolute
  correlation equals the threshold: the comparison \<^verbatim>\<open>upper > corr_th\<close> is false for the pair,
  its cells are NaN in \<^verbatim>\<open>high_corrs\<close>, and the loops do not visit it.  The drop list holds
  exactly the names the loops append for the pairs strictly above the threshold, so
  nothing is dropped on account of the pair \<open>a\<close>, \<open>b\<close>; and when no other pair with \<open>a\<close> or
  \<open>b\<close> in it is strictly above the threshold, neither \<open>a\<close> nor \<open>b\<close> is dropped and both stay
  in the result when they are in \<open>ftrs\<close>.
\<close>

theorem pair_at_threshold_is_no_cause:
  assumes dist: "distinct (numeric_columns df)"
    and ab: "cell (corr_matrix_of df) a b = Some th"
    and ba: "cell (corr_matrix_of df) b a = Some th"
  shows "\<not> gt_nan (cell (corr_matrix_of df) a b) (Some th) \<and>
         \<not> gt_nan (cell (corr_matrix_of df) b a) (Some th) \<and>
         cell (high_corrs_of df th) a b = None \<and> cell (high_corrs_of df th) b a = None \<and>
         \<not> high_pair df th a b \<and> \<not> high_pair df th b a \<and>
         (\<exists>dropped out. intercorrelated_features_set df th = Inr dropped \<and>
            selectNonIntercorrelated df ftrs th = Inr out \<and>
            out = filter (\<lambda>e. e \<notin> set dropped) ftrs \<and>
            (\<forall>x. x \<in> set dropped \<longleftrightarrow> (\<exists>p q. high_pair df th p q \<and> x = loser df q p)) \<and>
            ((\<forall>c\<in>set (numeric_columns df). c \<noteq> a \<and> c \<noteq> b \<longrightarrow>
                \<not> gt_nan (cell (corr_matrix_of df) a c) (Some th) \<and>
                \<not> gt_nan (cell (corr_matrix_of df) c a) (Some th) \<and>
                \<not> gt_nan (cell (corr_matrix_of df) b c) (Some th) \<and>
                \<not> gt_nan (cell (corr_matrix_of df) c b) (Some th)) \<longrightarrow>
             a \<notin> set dropped \<and> b \<notin> set dropped \<and>
             (a \<in> set ftrs \<longrightarrow> a \<in> set out) \<and> (b \<in> set ftrs \<longrightarrow> b \<in> set out)))"
proof -
  from select_char [of df th ftrs] obtain dropped where
    d1: "intercorrelated_features_set df th = Inr dropped"
    and d2: "set dropped = {loser df b a | a b. high_pair df th a b}"
    and d3: "selectNonIntercorrelated df ftrs th = Inr (filter (\<lambda>e. e \<notin> set dropped) ftrs)"
    by blast
  have nab: "\<not> gt_nan (cell (corr_matrix_of df) a b) (Some th)"
    and nba: "\<not> gt_nan (cell (corr_matrix_of df) b a) (Some th)"
    unfolding ab ba by simp_all
  from nab have cab: "cell (high_corrs_of df th) a b = None" by (simp add: cell_high_corrs)
  from nba have cba: "cell (high_corrs_of df th) b a = None" by (simp add: cell_high_corrs)
  from nab have hab: "\<not> high_pair df th a b" by (simp add: high_pair_def)
  from nba have hba: "\<not> high_pair df th b a" by (simp add: high_pair_def)
  have iff: "\<forall>x. x \<in> set dropped \<longleftrightarrow> (\<exists>p q. high_pair df th p q \<and> x = loser df q p)"
    unfolding d2 by blast
  have alone: "a \<notin> set dropped \<and> b \<notin> set dropped"
    if others: "\<forall>c\<in>set (numeric_columns df). c \<noteq> a \<and> c \<noteq> b \<longrightarrow>
        \<not> gt_nan (cell (corr_matrix_of df) a c) (Some th) \<and>
        \<not> gt_nan (cell (corr_matrix_of df) c a) (Some th) \<and>
        \<not> gt_nan (cell (corr_matrix_of df) b c) (Some th) \<and>
        \<not> gt_nan (cell (corr_matrix_of df) c b) (Some th)"
  proof -
    have oth: "\<not> gt_nan (cell (corr_matrix_of df) a c) (Some th) \<and>
               \<not> gt_nan (cell (corr_matrix_of df) c a) (Some th) \<and>
               \<not> gt_nan (cell (corr_matrix_of df) b c) (Some th) \<and>
               \<not> gt_nan (cell (corr_matrix_of df) c b) (Some th)"
      if "c \<in> set (numeric_columns df)" "c \<noteq> a" "c \<noteq> b" for c
      using others that by (elim ballE [of _ _ c]) simp_all
    have none: "\<not> high_pair df th x y" if xy: "x = a \<or> x = b \<or> y = a \<or> y = b" for x y
    proof
      assume hp: "high_pair df th x y"
      from hp have x: "x \<in> set (numeric_columns df)" by (simp add: high_pair_def)
      from hp have y: "y \<in> set (numeric_columns df)" by (simp add: high_pair_def)
      from hp have "position (numeric_columns df) x < position (numeric_columns df) y"
        by (simp add: high_pair_def)
      then have ne: "x \<noteq> y" by (rule position_less_neq)
      from hp have gt: "gt_nan (cell (corr_matrix_of df) x y) (Some th)"
        by (simp add: high_pair_def)
      from xy consider "x = a" | "x = b" | "y = a" | "y = b" by blast
      then show False
      proof cases
        case 1
        show False
        proof (cases "y = b")
          case True
          with 1 gt nab show False by simp
        next
          case False
          from oth [OF y _ False] ne 1 gt show False by simp
        qed
      next
        case 2
        show False
        proof (cases "y = a")
          case True
          with 2 gt nba show False by simp
        next
          case False
          from oth [OF y False] ne 2 gt show False by simp
        qed
      next
        case 3
        show False
        proof (cases "x = b")
          case True
          with 3 gt nba show False by simp
        next
          case False
          from oth [OF x _ False] ne 3 gt show False by simp
        qed
      next
        case 4
        show False
        proof (cases "x = a")
          case True
          with 4 gt nab show False by simp
        next
          case False
          from oth [OF x False] ne 4 gt show False by simp
        qed
      qed
    qed
    have na: "a \<notin> set dropped"
    proof
      assume "a \<in> set dropped"
      from dropped_is_pair_member [OF d1 this] obtain y where
        "high_pair df th a y \<or> high_pair df th y a" by blast
      with none [of a y] none [of y a] show False by blast
    qed
    have nb: "b \<notin> set dropped"
    proof
      assume "b \<in> set dropped"
      from dropped_is_pair_member [OF d1 this] obtain y where
        "high_pair df th b y \<or> high_pair df th y b" by blast
      with none [of b y] none [of y b] show False by blast
    qed
    from na nb show ?thesis by simp
  qed
  let ?out = "filter (\<lambda>e. e \<notin> set dropped) ftrs"
  have imp: "(\<forall>c\<in>set (numeric_columns df). c \<noteq> a \<and> c \<noteq> b \<longrightarrow>
                \<not> gt_nan (cell (corr_matrix_of df) a c) (Some th) \<and>
                \<not> gt_nan (cell (corr_matrix_of df) c a) (Some th) \<and>
                \<not> gt_nan (cell (corr_matrix_of df) b c) (Some th) \<and>
                \<not> gt_nan (cell (corr_matrix_of df) c b) (Some th)) \<longrightarrow>
             a \<notin> set dropped \<and> b \<notin> set dropped \<and>
             (a \<in> set ftrs \<longrightarrow> a \<in> set ?out) \<and> (b \<in> set ftrs \<longrightarrow> b \<in> set ?out)"
  proof
    assume "\<forall>c\<in>set (numeric_columns df). c \<noteq> a \<and> c \<noteq> b \<longrightarrow>
                \<not> gt_nan (cell (corr_matrix_of df) a c) (Some th) \<and>
                \<not> gt_nan (cell (corr_matrix_of df) c a) (Some th) \<and>
                \<not> gt_nan (cell (corr_matrix_of df) b c) (Some th) \<and>
                \<not> gt_nan (cell (corr_matrix_of df) c b) (Some th)"
    from alone [OF this]
    show "a \<notin> set dropped \<and> b \<notin> set dropped \<and>
          (a \<in> set ftrs \<longrightarrow> a \<in> set ?out) \<and> (b \<in> set ftrs \<longrightarrow> b \<in> set ?out)"
      by simp
  qed
  have body: "intercorrelated_features_set df th = Inr dropped \<and>
            selectNonIntercorrelated df ftrs th = Inr ?out \<and>
            ?out = filter (\<lambda>e. e \<notin> set dropped) ftrs \<and>
            (\<forall>x. x \<in> set dropped \<longleftrightarrow> (\<exists>p q. high_pair df th p q \<and> x = loser df q p)) \<and>
            ((\<forall>c\<in>set (numeric_columns df). c \<noteq> a \<and> c \<noteq> b \<longrightarrow>
                \<not> gt_nan (cell (corr_matrix_of df) a c) (Some th) \<and>
                \<not> gt_nan (cell (corr_matrix_of df) c a) (Some th) \<and>
                \<not> gt_nan (cell (corr_matrix_of df) b c) (Some th) \<and>
                \<not> gt_nan (cell (corr_matrix_of df) c b) (Some th)) \<longrightarrow>
             a \<notin> set dropped \<and> b \<notin> set dropped \<and>
             (a \<in> set ftrs \<longrightarrow> a \<in> set ?out) \<and> (b \<in> set ftrs \<longrightarrow> b \<in> set ?out))"
    by (rule conjI d1 d3 refl iff imp)+
  have ex: "\<exists>dropped out. intercorrelated_features_set df th = Inr dropped \<and>
            selectNonIntercorrelated df ftrs th = Inr out \<and>
            out = filter (\<lambda>e. e \<notin> set dropped) ftrs \<and>
            (\<forall>x. x \<in> set dropped \<longleftrightarrow> (\<exists>p q. high_pair df th p q \<and> x = loser df q p)) \<and>
            ((\<forall>c\<in>set (numeric_columns df). c \<noteq> a \<and> c \<noteq> b \<longrightarrow>
                \<not> gt_nan (cell (corr_matrix_of df) a c) (Some th) \<and>
                \<not> gt_nan (cell (corr_matrix_of df) c a) (Some th) \<and>
                \<not> gt_nan (cell (corr_matrix_of df) b c) (Some th) \<and>
                \<not> gt_nan (cell (corr_matrix_of df) c b) (Some th)) \<longrightarrow>
             a \<notin> set dropped \<and> b \<notin> set dropped \<and>
             (a \<in> set ftrs \<longrightarrow> a \<in> set out) \<and> (b \<in> set ftrs \<longrightarrow> b \<in> set out))"
    by (rule exI, rule exI, rule body)
  from nab nba cab cba hab hba ex show ?thesis by (intro conjI)
qed


theorem pair_at_threshold_is_no_cause_witness:
  "distinct (numeric_columns at_th) \<and>
   cell (corr_matrix_of at_th) ''A'' ''B'' = Some (9 / 10) \<and>
   cell (corr_matrix_of at_th) ''B'' ''A'' = Some (9 / 10) \<and>
   gt_nan (cell (corr_matrix_of at_th) ''B'' ''D'') (Some (9 / 10)) \<and>
   cell (high_corrs_of at_th (9 / 10)) ''A'' ''B'' = None \<and>
   \<not> high_pair at_th (9 / 10) ''A'' ''B'' \<and>
   intercorrelated_features_set at_th (9 / 10) = Inr [''D''] \<and>
   selectNonIntercorrelated at_th [''A'', ''B'', ''C'', ''D''] (9 / 10) = Inr [''A'', ''B'', ''C'']"
proof -
  have h0: "distinct (numeric_columns at_th)" by (simp add: at_th_def)
  have h1: "cell (corr_matrix_of at_th) ''A'' ''B'' = Some (9 / 10)" by (simp add: at_th_def)
  have h2: "cell (corr_matrix_of at_th) ''B'' ''A'' = Some (9 / 10)" by (simp add: at_th_def)
  have h3: "gt_nan (cell (corr_matrix_of at_th) ''B'' ''D'') (Some (9 / 10))"
    by (simp add: at_th_def)
  have e: "intercorrelated_features_set at_th (9 / 10) = Inr [''D'']"
    by (simp add: model_defs at_th_def del: not_None_eq)
  note t = pair_at_threshold_is_no_cause [OF h0 h1 h2, of "[''A'', ''B'', ''C'', ''D'']"]
  from t have t1: "cell (high_corrs_of at_th (9 / 10)) ''A'' ''B'' = None"
    by (elim conjE)
  from t have t2: "\<not> high_pair at_th (9 / 10) ''A'' ''B''"
    by (elim conjE)
  from t obtain dropped out where
    d: "intercorrelated_features_set at_th (9 / 10) = Inr dropped"
    and s: "selectNonIntercorrelated at_th [''A'', ''B'', ''C'', ''D''] (9 / 10) = Inr out"
    and o: "out = filter (\<lambda>e. e \<notin> set dropped) [''A'', ''B'', ''C'', ''D'']"
    by (elim conjE exE)
  from d e have "dropped = [''D'']" by simp
  with o have "out = [''A'', ''B'', ''C'']" by simp
  with s h0 h1 h2 h3 e t1 t2 show ?thesis by simp
qed

text \<open>
  C6, as stated, fails: with \<open>ftrs = [A]\<close> and a table that has a second column B whose
  correlation with A is above the threshold, A is dropped and the result is empty.
\<close>

theorem single_feature_counterexample:
  "selectNonIntercorrelated two_features [''A''] (9 / 10) = Inr [] \<and>
   selectNonIntercorrelated two_features [''A''] (9 / 10) \<noteq> Inr [''A'']"
  by (simp add: model_defs two_features_def del: not_None_eq)

text \<open>
  C6, amended. A one-element list \<open>[f]\<close> is returned unchanged, for every threshold,
  when no other column of the table has an absolute correlation with \<open>f\<close> strictly above
  the threshold; in particular when the table has no other column.
\<close>

theorem single_feature_retained:
  assumes "\<forall>c\<in>set (numeric_columns df). c \<noteq> f \<longrightarrow>
             \<not> gt_nan (cell (corr_matrix_of df) f c) (Some th) \<and>
             \<not> gt_nan (cell (corr_matrix_of df) c f) (Some th)"
  shows "selectNonIntercorrelated df [f] th = Inr [f]"
proof -
  from select_char [of df th "[f]"] obtain dropped where
    d1: "intercorrelated_features_set df th = Inr dropped"
    and d3: "selectNonIntercorrelated df [f] th = Inr (filter (\<lambda>e. e \<notin> set dropped) [f])"
    by blast
  have "f \<notin> set dropped"
  proof
    assume "f \<in> set dropped"
    from dropped_is_pair_member [OF d1 this] obtain y where
      "high_pair df th f y \<or> high_pair df th y f" by blast
    with assms show False by (auto simp: high_pair_def)
  qed
  with d3 show ?thesis by simp
qed

theorem single_feature_retained_witness:
  "\<not> gt_nan (cell (corr_matrix_of two_features) ''A'' ''B'') (Some (19 / 20)) \<and>
   \<not> gt_nan (cell (corr_matrix_of two_features) ''B'' ''A'') (Some (19 / 20)) \<and>
   selectNonIntercorrelated two_features [''A''] (19 / 20) = Inr [''A'']"
proof -
  have h: "\<forall>c\<in>set (numeric_columns two_features). c \<noteq> ''A'' \<longrightarrow>
             \<not> gt_nan (cell (corr_matrix_of two_features) ''A'' c) (Some (19 / 20)) \<and>
             \<not> gt_nan (cell (corr_matrix_of two_features) c ''A'') (Some (19 / 20))"
    by (simp add: two_features_def)
  have "\<not> gt_nan (cell (corr_matrix_of two_features) ''A'' ''B'') (Some (19 / 20))"
    "\<not> gt_nan (cell (corr_matrix_of two_features) ''B'' ''A'') (Some (19 / 20))"
    by (simp_all add: two_features_def)
  with single_feature_retained [OF h] show ?thesis by blast
qed

text \<open>
  C7, as stated, fails: the routine validates nothing.  A name of \<open>ftrs\<close> that is not a
  column of the table does not make it fail; it returns a result, with that name in it.
\<close>

theorem no_validation_counterexample:
  "''ghost'' \<notin> set (numeric_columns two_features) \<and>
   selectNonIntercorrelated two_features [''ghost''] (9 / 10) = Inr [''ghost'']"
  by (simp add: model_defs two_features_def del: not_None_eq)

text \<open>
  C7, amended. The routine validates nothing itself.  What \<^verbatim>\<open>corr\<close> raises leaves the
  routine unchanged.  When \<^verbatim>\<open>corr\<close> returns a table with distinct column labels, the
  routine returns a sub-list of \<open>ftrs\<close> in the order of \<open>ftrs\<close>: a name of \<open>ftrs\<close> that is
  not a column of the correlation matrix is returned as retained, and when every
  coefficient is NaN (what pandas answers for a frame with fewer than two rows) the
  result is \<open>ftrs\<close> itself.  Nothing is said of a table with a repeated column label.
\<close>

theorem returns_without_validation:
  "selectNonIntercorrelated_call (Inl err) ftrs th = Inl err \<and>
   (distinct (numeric_columns df) \<longrightarrow>
      (\<exists>out. selectNonIntercorrelated_call (Inr df) ftrs th = Inr out \<and> subseq out ftrs \<and>
         (\<forall>x\<in>set ftrs. x \<notin> set (numeric_columns df) \<longrightarrow> x \<in> set out) \<and>
         ((\<forall>a b. spearman df a b = None) \<longrightarrow> out = ftrs)))"
proof -
  from select_char [of df th ftrs] obtain dropped where
    d1: "intercorrelated_features_set df th = Inr dropped"
    and d3: "selectNonIntercorrelated df ftrs th = Inr (filter (\<lambda>e. e \<notin> set dropped) ftrs)"
    by blast
  let ?out = "filter (\<lambda>e. e \<notin> set dropped) ftrs"
  have sub: "set dropped \<subseteq> set (numeric_columns df)"
    using dropped_is_pair_member [OF d1] by (auto simp: high_pair_def)
  then have keep: "\<forall>x\<in>set ftrs. x \<notin> set (numeric_columns df) \<longrightarrow> x \<in> set ?out" by auto
  have nan: "?out = ftrs" if "\<forall>a b. spearman df a b = None"
  proof -
    from that have "\<not> high_pair df th a b" for a b by (simp add: high_pair_def)
    from no_high_pair_identity [OF this, of ftrs] d3 show ?thesis by simp
  qed
  have "selectNonIntercorrelated_call (Inr df) ftrs th = Inr ?out"
    by (simp add: selectNonIntercorrelated_call_def d3)
  with keep nan have "\<exists>out. selectNonIntercorrelated_call (Inr df) ftrs th = Inr out \<and>
      subseq out ftrs \<and>
      (\<forall>x\<in>set ftrs. x \<notin> set (numeric_columns df) \<longrightarrow> x \<in> set out) \<and>
      ((\<forall>a b. spearman df a b = None) \<longrightarrow> out = ftrs)" by auto
  moreover have "selectNonIntercorrelated_call (Inl err) ftrs th = Inl err"
    by (simp add: selectNonIntercorrelated_call_def)
  ultimately show ?thesis by simp
qed

theorem returns_without_validation_witness:
  "selectNonIntercorrelated_call (Inl (ValueError ''could not convert string to float''))
     [''B'', ''ghost'', ''A''] (9 / 10)
     = Inl (ValueError ''could not convert string to float'') \<and>
   distinct (numeric_columns all_nan2) \<and>
   ''ghost'' \<notin> set (numeric_columns all_nan2) \<and>
   spearman all_nan2 ''A'' ''B'' = None \<and>
   selectNonIntercorrelated_call (Inr all_nan2) [''B'', ''ghost'', ''A''] (9 / 10)
     = Inr [''B'', ''ghost'', ''A'']"
proof -
  have h0: "distinct (numeric_columns all_nan2)" by (simp add: all_nan2_def)
  have h: "\<forall>a b. spearman all_nan2 a b = None" by (simp add: all_nan2_def)
  note t = returns_without_validation
    [of "ValueError ''could not convert string to float''" "[''B'', ''ghost'', ''A'']" "9 / 10"
      all_nan2]
  from t have t1: "selectNonIntercorrelated_call
      (Inl (ValueError ''could not convert string to float'')) [''B'', ''ghost'', ''A''] (9 / 10)
      = Inl (ValueError ''could not convert string to float'')"
    by (elim conjE)
  from t h0 h have t2: "selectNonIntercorrelated_call (Inr all_nan2) [''B'', ''ghost'', ''A'']
      (9 / 10) = Inr [''B'', ''ghost'', ''A'']"
    by auto
  from t1 t2 h0 show ?thesis by (simp add: all_nan2_def)
qed

text \<open>
  C8. A call leaves its arguments as they were: when \<open>df_in\<close> and \<open>ftrs\<close> are the addresses
  of a frame and of a list of names in the store, the call returns, the objects at
  \<open>df_in\<close> and \<open>ftrs\<close> (and at every address in use before the call) are unchanged, and the
  result is a list at an address that was not in use, equal to what the routine computes
  on values.
\<close>

theorem arguments_unchanged:
  assumes df: "objs s df_in = Some (FrameObj df)"
    and fs: "objs s ftrs = Some (ListObj fs)"
    and a1: "df_in < fresh s" and a2: "ftrs < fresh s"
  shows "\<exists>res s' out. selectNonIntercorrelated_st df_in ftrs th s = Inr (res, s') \<and>
           selectNonIntercorrelated df fs th = Inr out \<and>
           objs s' res = Some (ListObj out) \<and> fresh s \<le> res \<and>
           objs s' df_in = Some (FrameObj df) \<and> objs s' ftrs = Some (ListObj fs) \<and>
           (\<forall>p<fresh s. objs s' p = objs s p)"
proof -
  from select_char [of df th fs] obtain dropped where
    d1: "intercorrelated_features_set df th = Inr dropped"
    and d3: "selectNonIntercorrelated df fs th = Inr (filter (\<lambda>e. e \<notin> set dropped) fs)"
    by blast
  let ?out = "filter (\<lambda>e. e \<notin> set dropped) fs"
  let ?s0 = "s\<lparr>fresh := Suc (fresh s)\<rparr>"
  let ?s2 = "put_list (fresh s) dropped ?s0"
  let ?s3 = "put_list (Suc (fresh s)) ?out (?s2\<lparr>fresh := Suc (Suc (fresh s))\<rparr>)"
  let ?s4 = "?s3\<lparr>printed := printed ?s3 @ [?out]\<rparr>"
  from d1 have o: "outer_loop (mean_absolute_corr_of df) (high_corrs_of df th)
      (columns (high_corrs_of df th)) [] = Inr dropped"
    by (simp add: intercorrelated_features_set_def Let_def)
  have l: "outer_loop_st (mean_absolute_corr_of df) (high_corrs_of df th)
      (columns (high_corrs_of df th)) (fresh s) (put_list (fresh s) [] ?s0) = Inr ?s2"
    by (simp add: outer_loop_st_put o)
  have f2: "objs ?s2 ftrs = Some (ListObj fs)" using fs a2 by simp
  have i2: "objs ?s2 (fresh s) = Some (ListObj dropped)" by simp
  have run: "selectNonIntercorrelated_st df_in ftrs th s = Inr (Suc (fresh s), ?s4)"
    unfolding selectNonIntercorrelated_st_def
    by (simp add: df Let_def alloc_list l f2 i2 del: objs_put_list) (simp add: put_list_def)
  have "objs ?s4 (Suc (fresh s)) = Some (ListObj ?out)" by simp
  moreover have "objs ?s4 df_in = Some (FrameObj df)" using df a1 by simp
  moreover have "objs ?s4 ftrs = Some (ListObj fs)" using fs a2 by simp
  moreover have "\<forall>p<fresh s. objs ?s4 p = objs s p" by simp
  ultimately show ?thesis using run d3 by auto
qed

theorem arguments_unchanged_witness:
  "objs sample_store 0 = Some (FrameObj demo3) \<and>
   objs sample_store 1 = Some (ListObj [''A'', ''B'', ''C'']) \<and>
   (0::nat) < fresh sample_store \<and> (1::nat) < fresh sample_store \<and>
   (\<exists>res s'. selectNonIntercorrelated_st 0 1 (9 / 10) sample_store = Inr (res, s') \<and>
      objs s' res = Some (ListObj [''A'', ''C'']) \<and> fresh sample_store \<le> res \<and>
      objs s' 0 = Some (FrameObj demo3) \<and>
      objs s' 1 = Some (ListObj [''A'', ''B'', ''C'']))"
proof -
  have h1: "objs sample_store 0 = Some (FrameObj demo3)" by (simp add: sample_store_def)
  have h2: "objs sample_store 1 = Some (ListObj [''A'', ''B'', ''C''])"
    by (simp add: sample_store_def)
  have h3: "(0::nat) < fresh sample_store" by (simp add: sample_store_def)
  have h4: "(1::nat) < fresh sample_store" by (simp add: sample_store_def)
  have e: "selectNonIntercorrelated demo3 [''A'', ''B'', ''C''] (9 / 10) = Inr [''A'', ''C'']"
    by (simp add: model_defs demo3_def del: not_None_eq)
  from arguments_unchanged [OF h1 h2 h3 h4, of "9 / 10"] obtain res s' out where
    "selectNonIntercorrelated_st 0 1 (9 / 10) sample_store = Inr (res, s')"
    "selectNonIntercorrelated demo3 [''A'', ''B'', ''C''] (9 / 10) = Inr out"
    "objs s' res = Some (ListObj out)" "fresh sample_store \<le> res"
    "objs s' 0 = Some (FrameObj demo3)" "objs s' 1 = Some (ListObj [''A'', ''B'', ''C''])"
    by blast
  with e h1 h2 h3 h4 show ?thesis by auto
qed

text \<open>
  C9. The drop list holds column names of the correlation matrix only, so a name of
  \<open>ftrs\<close> that is not such a column is always in the result; no error is raised for it.
\<close>

theorem unknown_names_are_retained:
  assumes "x \<in> set ftrs" "x \<notin> set (numeric_columns df)"
  shows "\<exists>dropped out. intercorrelated_features_set df th = Inr dropped \<and>
           set dropped \<subseteq> set (numeric_columns df) \<and>
           selectNonIntercorrelated df ftrs th = Inr out \<and> x \<in> set out"
proof -
  from select_char [of df th ftrs] obtain dropped where
    d1: "intercorrelated_features_set df th = Inr dropped"
    and d3: "selectNonIntercorrelated df ftrs th = Inr (filter (\<lambda>e. e \<notin> set dropped) ftrs)"
    by blast
  have sub: "set dropped \<subseteq> set (numeric_columns df)"
    using dropped_is_pair_member [OF d1] by (auto simp: high_pair_def)
  with assms have "x \<in> set (filter (\<lambda>e. e \<notin> set dropped) ftrs)" by auto
  with d1 d3 sub show ?thesis by blast
qed

theorem unknown_names_are_retained_witness:
  "''ghost'' \<in> set [''A'', ''ghost'', ''B''] \<and> ''ghost'' \<notin> set (numeric_columns two_features) \<and>
   (\<exists>dropped out. intercorrelated_features_set two_features (9 / 10) = Inr dropped \<and>
      set dropped \<subseteq> set (numeric_columns two_features) \<and>
      selectNonIntercorrelated two_features [''A'', ''ghost'', ''B''] (9 / 10) = Inr out \<and>
      ''ghost'' \<in> set out)"
proof -
  have h1: "''ghost'' \<in> set [''A'', ''ghost'', ''B'']" by simp
  have h2: "''ghost'' \<notin> set (numeric_columns two_features)" by (simp add: two_features_def)
  from unknown_names_are_retained [OF h1 h2, of "9 / 10"] h1 h2 show ?thesis by blast
qed

text \<open>
  C10. The drop list is computed from all numeric columns of the table, not only those
  named in \<open>ftrs\<close>: in the table \<open>tie3\<close> with \<open>ftrs = [A, C]\<close> and threshold 0.9, A is
  dropped although its correlation with C, the only other name of \<open>ftrs\<close>, is 0.1; it is
  dropped for its correlation with B, which is not in \<open>ftrs\<close>, and it is retained when the
  table has the columns A and C only.
\<close>

theorem dropped_because_of_column_outside_ftrs:
  "''A'' \<in> set [''A'', ''C''] \<and> ''B'' \<notin> set [''A'', ''C''] \<and>
   cell (corr_matrix_of tie3) ''A'' ''C'' = Some (1 / 10) \<and>
   cell (corr_matrix_of tie3) ''C'' ''A'' = Some (1 / 10) \<and>
   \<not> gt_nan (Some (1 / 10)) (Some (9 / 10)) \<and>
   gt_nan (cell (corr_matrix_of tie3) ''A'' ''B'') (Some (9 / 10)) \<and>
   selectNonIntercorrelated tie3 [''A'', ''C''] (9 / 10) = Inr [''C''] \<and>
   selectNonIntercorrelated (tie3\<lparr>numeric_columns := [''A'', ''C'']\<rparr>) [''A'', ''C''] (9 / 10)
     = Inr [''A'', ''C'']"
  by (simp add: model_defs tie3_def del: not_None_eq)

end
